theory Spec2Isabelle
  imports
    Main
    "HOL-Library.Char_ord"
    "HOL-Library.List_Lexorder"
    "HOL-Library.DAList"
    "HOL-Library.FSet"
begin

section \<open>The command line interface of POEM (src/poem/cli.py)\<close>

text \<open>
  The listing commands of \<^verbatim>\<open>cli.py\<close> walk registries (dictionaries from a
  component name to a class, function or instance), read each component's documentation
  string and hand rows to the table renderer. The model below follows the file function by
  function. Text is modelled as \<^typ>\<open>string\<close> and covers ASCII documentation; the
  renderer \<^verbatim>\<open>tabulate\<close>, the command builder \<^verbatim>\<open>build_cli_from_cls\<close> and the
  registries themselves are imported by \<^verbatim>\<open>cli.py\<close> and enter as parameters.
\<close>

subsection \<open>Python strings\<close>

text \<open>\<^verbatim>\<open>str.find\<close> for a one-character needle: the lowest index, or -1.\<close>

fun py_find :: "string \<Rightarrow> char \<Rightarrow> int" where
  "py_find [] c = - 1"
| "py_find (x # xs) c =
     (if x = c then 0 else (let i = py_find xs c in if i < 0 then - 1 else i + 1))"

text \<open>
  A slice bound of \<^verbatim>\<open>s[a:b]\<close>: a negative bound counts from the end, and every bound
  is clipped into \<open>0..len(s)\<close>. Slicing never raises.
\<close>

definition slice_bound :: "int \<Rightarrow> int \<Rightarrow> nat" where
  "slice_bound n i = nat (if i < 0 then max 0 (i + n) else min i n)"

definition py_slice :: "string \<Rightarrow> int \<Rightarrow> int \<Rightarrow> string" where
  "py_slice s a b =
     (let n = int (length s) in drop (slice_bound n a) (take (slice_bound n b) s))"

text \<open>The case mappings of the ASCII letters; every other character is left as it is.\<close>

definition lower_letters :: string where
  "lower_letters = ''abcdefghijklmnopqrstuvwxyz''"

definition upper_letters :: string where
  "upper_letters = ''ABCDEFGHIJKLMNOPQRSTUVWXYZ''"

definition to_upper :: "char \<Rightarrow> char" where
  "to_upper c = (case map_of (zip lower_letters upper_letters) c of Some u \<Rightarrow> u | None \<Rightarrow> c)"

definition to_lower :: "char \<Rightarrow> char" where
  "to_lower c = (case map_of (zip upper_letters lower_letters) c of Some u \<Rightarrow> u | None \<Rightarrow> c)"

text \<open>\<^verbatim>\<open>str.capitalize\<close>: the first character in upper case, all others in lower case.\<close>

fun capitalize :: "string \<Rightarrow> string" where
  "capitalize [] = []"
| "capitalize (c # cs) = to_upper c # map to_lower cs"

text \<open>
  \<^verbatim>\<open>str.splitlines\<close>: the line boundaries are LF, VT, FF, CR, FS, GS, RS, and CR LF
  counts as one boundary; the boundaries are dropped and a boundary at the very end opens
  no further line. (The three boundaries beyond ASCII, NEL and the Unicode line and
  paragraph separators, do not occur in the text modelled here.)
\<close>

definition is_linebreak :: "char \<Rightarrow> bool" where
  "is_linebreak c = ((of_char c :: nat) \<in> {10, 11, 12, 13, 28, 29, 30})"

fun splitlines_from :: "string \<Rightarrow> string \<Rightarrow> string list" where
  "splitlines_from cur [] = (if cur = [] then [] else [cur])"
| "splitlines_from cur [c] = (if is_linebreak c then [cur] else [cur @ [c]])"
| "splitlines_from cur (c # d # cs) =
     (if c = CHR 0x0D \<and> d = CHR 0x0A then cur # splitlines_from [] cs
      else if is_linebreak c then cur # splitlines_from [] (d # cs)
      else splitlines_from (cur @ [c]) (d # cs))"

definition splitlines :: "string \<Rightarrow> string list" where
  "splitlines s = splitlines_from [] s"

text \<open>The decimal text of a number and the format specification \<^verbatim>\<open>{i:>2}\<close>.\<close>

definition digit_char :: "nat \<Rightarrow> char" where
  "digit_char d = ''0123456789'' ! d"

function str_nat :: "nat \<Rightarrow> string" where
  "str_nat n = (if n < 10 then [digit_char n] else str_nat (n div 10) @ [digit_char (n mod 10)])"
  by pat_completeness auto
termination
  by (relation "measure id") auto

definition rjust :: "nat \<Rightarrow> string \<Rightarrow> string" where
  "rjust w s = replicate (w - length s) CHR '' '' @ s"

subsection \<open>Python objects, exceptions and registries\<close>

text \<open>
  What the listing reads of a registered component \<^verbatim>\<open>value\<close>:
  \<^verbatim>\<open>value.__name__\<close> (absent on an instance, where the lookup raises AttributeError),
  \<^verbatim>\<open>value.__doc__\<close> and \<^verbatim>\<open>value.__class__.__doc__\<close> (each a string or Python's None).
\<close>

record pyobj =
  attr_name :: "string option"
  attr_doc :: "string option"
  class_doc :: "string option"

datatype error = AttributeError | IndexError

text \<open>A field of a row: a string, or None where the code puts a missing documentation.\<close>

datatype cell = PStr string | PNone

type_synonym row = "cell list"

text \<open>
  A registry is a dictionary: its keys are distinct and \<^verbatim>\<open>d.items()\<close> lists the entries in
  insertion order. \<^verbatim>\<open>sorted(d.items())\<close> compares the pairs by their names, which decides
  every comparison because no two names are equal; names compare as Python strings do,
  lexicographically by character code.
\<close>

type_synonym 'v dict = "(string, 'v) alist"

definition items :: "'v dict \<Rightarrow> (string \<times> 'v) list" where
  "items d = DAList.impl_of d"

definition sorted_items :: "'v dict \<Rightarrow> (string \<times> 'v) list" where
  "sorted_items d = sort_key fst (items d)"

text \<open>A loop that yields one row per entry and stops at the first exception.\<close>

fun for_each :: "('a \<Rightarrow> error + 'b) \<Rightarrow> 'a list \<Rightarrow> error + 'b list" where
  "for_each f [] = Inr []"
| "for_each f (x # xs) =
     (case f x of
        Inl e \<Rightarrow> Inl e
      | Inr y \<Rightarrow> (case for_each f xs of Inl e \<Rightarrow> Inl e | Inr ys \<Rightarrow> Inr (y # ys)))"

text \<open>
  \<^verbatim>\<open>doc.splitlines()[0]\<close>: AttributeError when the documentation is None, IndexError
  when it has no line.
\<close>

definition first_doc_line :: "string option \<Rightarrow> error + string" where
  "first_doc_line doc =
     (case doc of
        None \<Rightarrow> Inl AttributeError
      | Some s \<Rightarrow> (case splitlines s of [] \<Rightarrow> Inl IndexError | ln # _ \<Rightarrow> Inr ln))"

subsection \<open>Rows of the model listing\<close>

text \<open>The pair \<^verbatim>\<open>line[1 + l: r - 4], line[r - 4: r]\<close> of \<^verbatim>\<open>_get_model_lines\<close>.\<close>

definition author_year :: "string \<Rightarrow> string \<times> string" where
  "author_year line =
     (let l = py_find line CHR ''[''; r = py_find line CHR '']''
      in (py_slice line (1 + l) (r - 4), py_slice line (r - 4) r))"

definition model_line :: "string \<Rightarrow> string \<times> pyobj \<Rightarrow> error + row" where
  "model_line tablefmt entry =
     (let name = fst entry; model = snd entry in
      case first_doc_line (attr_doc model) of
        Inl e \<Rightarrow> Inl e
      | Inr line \<Rightarrow>
         (let l = py_find line CHR ''[''; r = py_find line CHR '']'' in
          if tablefmt = ''rst'' then
            Inr [PStr name, PStr ('':class:`poem.models.'' @ name @ ''`''),
                 PStr (py_slice line l (r + 2))]
          else if tablefmt = ''github'' then
            (let author = fst (author_year line); year = snd (author_year line) in
             Inr [PStr name, PStr (''`poem.models.'' @ name @ ''`''),
                  PStr (capitalize author @ '' *et al.*, '' @ year)])
          else
            (let author = fst (author_year line); year = snd (author_year line) in
             Inr [PStr name, PStr (capitalize author @ '', '' @ year)])))"

definition get_model_lines :: "pyobj dict \<Rightarrow> string \<Rightarrow> error + row list" where
  "get_model_lines models_dict tablefmt = for_each (model_line tablefmt) (sorted_items models_dict)"

subsection \<open>Rows of the other listings\<close>

definition get_line :: "string \<Rightarrow> string \<Rightarrow> string \<times> pyobj \<Rightarrow> error + row" where
  "get_line tablefmt submodule entry =
     (let name = fst entry; v = snd entry in
      if tablefmt = ''rst'' then
        Inr [PStr name, PStr ('':class:`poem.'' @ submodule @ ''.'' @ name @ ''`'')]
      else if tablefmt = ''github'' then
        (case attr_name v of
           None \<Rightarrow>
             Inr [PStr name, PStr (''`poem.'' @ submodule @ ''.'' @ name @ ''`''),
                  (case class_doc v of None \<Rightarrow> PNone | Some d \<Rightarrow> PStr d)]
         | Some ref \<Rightarrow>
            (case first_doc_line (attr_doc v) of
               Inl AttributeError \<Rightarrow>
                 Inr [PStr name, PStr (''`poem.'' @ submodule @ ''.'' @ name @ ''`''),
                      (case class_doc v of None \<Rightarrow> PNone | Some d \<Rightarrow> PStr d)]
             | Inl IndexError \<Rightarrow> Inl IndexError
             | Inr doc \<Rightarrow>
                 Inr [PStr name, PStr (''`poem.'' @ submodule @ ''.'' @ ref @ ''`''), PStr doc]))
      else
        (case first_doc_line (attr_doc v) of
           Inl e \<Rightarrow> Inl e
         | Inr doc \<Rightarrow> Inr [PStr name, PStr doc]))"

definition get_lines :: "pyobj dict \<Rightarrow> string \<Rightarrow> string \<Rightarrow> error + row list" where
  "get_lines d tablefmt submodule = for_each (get_line tablefmt submodule) (sorted_items d)"

subsection \<open>Standard output and the listing commands\<close>

text \<open>
  A command's effect is the text it writes to standard output together with the exception
  that ended it, if any. \<^verbatim>\<open>click.echo\<close> writes its message and a newline.
\<close>

type_synonym out = "string \<times> error option"

definition echo :: "string \<Rightarrow> out" where
  "echo msg = (msg @ [CHR 0x0A], None)"

definition raise :: "error \<Rightarrow> out" where
  "raise e = ([], Some e)"

text \<open>Two statements in sequence: the second runs only when the first raised nothing.\<close>

definition then_do :: "out \<Rightarrow> out \<Rightarrow> out" where
  "then_do a b = (case snd a of Some e \<Rightarrow> a | None \<Rightarrow> (fst a @ fst b, snd b))"

text \<open>
  The renderer \<^verbatim>\<open>tabulate(lines, headers=..., tablefmt=...)\<close> of the tabulate package is
  a parameter. It consumes the row generator, so an exception of the row loop leaves the
  command before anything of the table is written.
\<close>

type_synonym tabulate = "row list \<Rightarrow> string list \<Rightarrow> string \<Rightarrow> string"

text \<open>The registries that \<^verbatim>\<open>cli.py\<close> imports.\<close>

record registries =
  models_dict :: "pyobj dict"
  data_sets :: "pyobj dict"
  training_dict :: "pyobj dict"
  samplers_dict :: "pyobj dict"
  evaluators_dict :: "pyobj dict"
  metrics_dict :: "pyobj dict"

text \<open>\<^verbatim>\<open>ls models\<close>\<close>

definition models :: "tabulate \<Rightarrow> registries \<Rightarrow> string \<Rightarrow> out" where
  "models tabulate regs tablefmt =
     (case get_model_lines (models_dict regs) tablefmt of
        Inl e \<Rightarrow> raise e
      | Inr lines \<Rightarrow>
          echo (tabulate lines
                  (if tablefmt \<in> {''rst'', ''github''} then [''Name'', ''Reference'', ''Citation'']
                   else [''Name'', ''Citation''])
                  tablefmt))"

text \<open>\<^verbatim>\<open>ls datasets\<close>\<close>

definition datasets :: "tabulate \<Rightarrow> registries \<Rightarrow> string \<Rightarrow> out" where
  "datasets tabulate regs tablefmt =
     (case get_lines (data_sets regs) tablefmt ''datasets'' of
        Inl e \<Rightarrow> raise e
      | Inr lines \<Rightarrow>
          echo (tabulate lines
                  (if tablefmt = ''plain'' then [''Name'', ''Description'']
                   else [''Name'', ''Reference'', ''Description''])
                  tablefmt))"

text \<open>\<^verbatim>\<open>ls training\<close>\<close>

definition training :: "tabulate \<Rightarrow> registries \<Rightarrow> string \<Rightarrow> out" where
  "training tabulate regs tablefmt =
     (case get_lines (training_dict regs) tablefmt ''training'' of
        Inl e \<Rightarrow> raise e
      | Inr lines \<Rightarrow>
          echo (tabulate lines
                  (if tablefmt = ''plain'' then [''Name'', ''Description'']
                   else [''Name'', ''Reference'', ''Description''])
                  tablefmt))"

text \<open>\<^verbatim>\<open>ls samplers\<close>\<close>

definition samplers :: "tabulate \<Rightarrow> registries \<Rightarrow> string \<Rightarrow> out" where
  "samplers tabulate regs tablefmt =
     (case get_lines (samplers_dict regs) tablefmt ''sampling'' of
        Inl e \<Rightarrow> raise e
      | Inr lines \<Rightarrow>
          echo (tabulate lines
                  (if tablefmt = ''plain'' then [''Name'', ''Description'']
                   else [''Name'', ''Reference'', ''Description''])
                  tablefmt))"

text \<open>\<^verbatim>\<open>ls evaluators\<close>\<close>

definition evaluators :: "tabulate \<Rightarrow> registries \<Rightarrow> string \<Rightarrow> out" where
  "evaluators tabulate regs tablefmt =
     (case get_lines (evaluators_dict regs) tablefmt ''evaluators'' of
        Inl e \<Rightarrow> raise e
      | Inr lines \<Rightarrow>
          echo (tabulate lines
                  (if tablefmt = ''plain'' then [''Name'', ''Description'']
                   else [''Name'', ''Reference'', ''Description''])
                  tablefmt))"

text \<open>\<^verbatim>\<open>ls metrics\<close>; its references point into the evaluators submodule.\<close>

definition metrics :: "tabulate \<Rightarrow> registries \<Rightarrow> string \<Rightarrow> out" where
  "metrics tabulate regs tablefmt =
     (case get_lines (metrics_dict regs) tablefmt ''evaluators'' of
        Inl e \<Rightarrow> raise e
      | Inr lines \<Rightarrow>
          echo (tabulate lines
                  (if tablefmt = ''plain'' then [''Name'', ''Description'']
                   else [''Name'', ''Reference'', ''Description''])
                  tablefmt))"

text \<open>
  \<^verbatim>\<open>ls github-readme\<close>: \<^verbatim>\<open>ctx.invoke(cmd, tablefmt='github')\<close> calls the command's
  function with that format.
\<close>

definition github_readme :: "tabulate \<Rightarrow> registries \<Rightarrow> out" where
  "github_readme tabulate regs =
     then_do (echo (''### Models'' @ [CHR 0x0A]))
    (then_do (models tabulate regs ''github'')
    (then_do (echo ([CHR 0x0A] @ ''### Data Sets'' @ [CHR 0x0A]))
    (then_do (datasets tabulate regs ''github'')
    (then_do (echo ([CHR 0x0A] @ ''### Training Modes'' @ [CHR 0x0A]))
    (then_do (training tabulate regs ''github'')
    (then_do (echo ([CHR 0x0A] @ ''### Evaluators'' @ [CHR 0x0A]))
    (then_do (evaluators tabulate regs ''github'')
    (then_do (echo ([CHR 0x0A] @ ''### Metrics'' @ [CHR 0x0A]))
             (metrics tabulate regs ''github'')))))))))"

subsection \<open>Hyper-parameter usage\<close>

text \<open>
  \<^verbatim>\<open>ls parameters\<close> reads two things of \<^verbatim>\<open>BaseModule\<close>: the keys of
  \<^verbatim>\<open>BaseModule.__init__.__annotations__\<close> and the dictionary
  \<^verbatim>\<open>BaseModule._hyperparameter_usage\<close> from a hyper-parameter name to the set of the
  names of the classes using it.
\<close>

definition base_parameters :: "string list \<Rightarrow> string set" where
  "base_parameters annotations = set annotations \<union> {''init''}"

definition hyperparameter_usage :: "string list \<Rightarrow> string fset dict \<Rightarrow> (string \<times> string fset) list" where
  "hyperparameter_usage annotations usage =
     sort_key fst (filter (\<lambda>kv. fst kv \<notin> base_parameters annotations) (items usage))"

text \<open>\<^verbatim>\<open>enumerate(xs, start=1)\<close>\<close>

definition enumerate1 :: "'a list \<Rightarrow> (nat \<times> 'a) list" where
  "enumerate1 xs = zip [1 ..< Suc (length xs)] xs"

definition parameter_block :: "nat \<times> string \<times> string fset \<Rightarrow> string" where
  "parameter_block e =
     (let i = fst e; name = fst (snd e); vals = snd (snd e) in
      fst (echo (rjust 2 (str_nat i) @ ''. '' @ name))
      @ concat (map (\<lambda>v. fst (echo (''    - '' @ v))) (sorted_list_of_fset vals)))"

definition parameters :: "string list \<Rightarrow> string fset dict \<Rightarrow> out" where
  "parameters annotations usage =
     (fst (echo ''Names of __init__() parameters in all classes:'')
      @ concat (map parameter_block (enumerate1 (hyperparameter_usage annotations usage))),
      None)"

subsection \<open>The train group\<close>

text \<open>
  The module ends with the loop
  \<^verbatim>\<open>for cls in models_dict.values(): train.add_command(build_cli_from_cls(cls))\<close>
  and then, when run as a script, calls \<^verbatim>\<open>main()\<close>. The builder
  \<^verbatim>\<open>build_cli_from_cls\<close> and the name of the command it returns are parameters. click
  keeps the commands of a group in a dictionary under their names, so
  \<^verbatim>\<open>add_command\<close> stores the command under its name.
\<close>

definition dict_values :: "'v dict \<Rightarrow> 'v list" where
  "dict_values d = map snd (items d)"





subsection \<open>Predicates and example data used to state the properties\<close>

text \<open>A component whose own documentation string has a first line.\<close>

definition documented :: "pyobj \<Rightarrow> bool" where
  "documented v = (case attr_doc v of None \<Rightarrow> False | Some s \<Rightarrow> s \<noteq> [])"

text \<open>Two model classes documented the way the models of the package are.\<close>

definition transe :: pyobj where
  "transe = \<lparr>attr_name = Some ''TransE'',
     attr_doc = Some ''An implementation of TransE [bordes2013]_.'',
     class_doc = Some ''type''\<rparr>"

definition conve :: pyobj where
  "conve = \<lparr>attr_name = Some ''ConvE'',
     attr_doc = Some (''An implementation of ConvE [dettmers2018]_.'' @ [CHR 0x0A] @ ''More text.''),
     class_doc = Some ''type''\<rparr>"

definition two_models :: "pyobj dict" where
  "two_models = DAList.update ''ConvE'' conve (DAList.update ''TransE'' transe DAList.empty)"

text \<open>
  A component whose documentation has a first line that carries no complete citation: the
  opening or the closing bracket is missing.
\<close>

definition uncited :: "pyobj \<Rightarrow> bool" where
  "uncited v =
     (case first_doc_line (attr_doc v) of
        Inl e \<Rightarrow> False
      | Inr line \<Rightarrow> CHR ''['' \<notin> set line \<or> CHR '']'' \<notin> set line)"

text \<open>
  Further example components: a citation that ends the line, a closing bracket ahead of the
  citation, a line without a citation, and an instance with no documentation of its own or of
  its class.
\<close>

definition smith_model :: pyobj where
  "smith_model = \<lparr>attr_name = Some ''SmithModel'',
     attr_doc = Some ''The model of Smith [smith2020]'', class_doc = Some ''type''\<rparr>"

definition stray_model :: pyobj where
  "stray_model = \<lparr>attr_name = Some ''Stray'',
     attr_doc = Some ''x] [smith2020]'', class_doc = Some ''type''\<rparr>"

definition plain_model :: pyobj where
  "plain_model = \<lparr>attr_name = Some ''PlainModel'',
     attr_doc = Some ''A model with no citation'', class_doc = Some ''type''\<rparr>"

definition uncited_models :: "pyobj dict" where
  "uncited_models = DAList.update ''PlainModel'' plain_model DAList.empty"

definition bare_metric :: pyobj where
  "bare_metric = \<lparr>attr_name = None, attr_doc = None, class_doc = None\<rparr>"

definition bare_registry :: "pyobj dict" where
  "bare_registry = DAList.update ''hits_at_k'' bare_metric DAList.empty"

text \<open>A class without a documentation string of its own, in a registry of evaluators.\<close>

definition undocumented_class :: pyobj where
  "undocumented_class = \<lparr>attr_name = Some ''MeanReciprocalRank'', attr_doc = None,
     class_doc = Some ''The type of a class.''\<rparr>"

definition undocumented_registry :: "pyobj dict" where
  "undocumented_registry = DAList.update ''mrr'' undocumented_class DAList.empty"

text \<open>Registries to run the commands on; the data sets are empty.\<close>

definition owa_loop :: pyobj where
  "owa_loop = \<lparr>attr_name = Some ''OWATrainingLoop'',
     attr_doc = Some ''A training loop that uses the open world assumption.'',
     class_doc = Some ''type''\<rparr>"

definition rank_evaluator :: pyobj where
  "rank_evaluator = \<lparr>attr_name = Some ''RankBasedEvaluator'',
     attr_doc = Some ''A rank-based evaluator for KGE models.'',
     class_doc = Some ''type''\<rparr>"

definition mean_rank :: pyobj where
  "mean_rank = \<lparr>attr_name = Some ''mean_rank'', attr_doc = Some ''The mean rank.'',
     class_doc = Some ''Create a function object.''\<rparr>"

definition example_registries :: registries where
  "example_registries =
     \<lparr>models_dict = two_models,
      data_sets = DAList.empty,
      training_dict = DAList.update ''owa'' owa_loop DAList.empty,
      samplers_dict = DAList.empty,
      evaluators_dict = DAList.update ''rankbased'' rank_evaluator DAList.empty,
      metrics_dict = DAList.update ''mr'' mean_rank DAList.empty\<rparr>"

text \<open>The same registries with a model registry whose one class has no documentation.\<close>

definition undocumented_model_registries :: registries where
  "undocumented_model_registries = example_registries\<lparr>models_dict := undocumented_registry\<rparr>"

text \<open>
  A small renderer to run the commands with: a line of headers and a line per row, the
  fields separated by bars, None shown as nothing.
\<close>

fun join :: "string \<Rightarrow> string list \<Rightarrow> string" where
  "join sep [] = []"
| "join sep [x] = x"
| "join sep (x # y # ys) = x @ sep @ join sep (y # ys)"

definition cell_text :: "cell \<Rightarrow> string" where
  "cell_text c = (case c of PStr s \<Rightarrow> s | PNone \<Rightarrow> [])"

definition bar_table :: tabulate where
  "bar_table lines headers tablefmt =
     join [CHR 0x0A] (map (join '' | '') (headers # map (map cell_text) lines))"

text \<open>The usage dictionary \<open>{a: {X}, c: {Y, Z}}\<close>.\<close>

definition example_usage :: "string fset dict" where
  "example_usage =
     DAList.update ''c'' {|''Z'', ''Y''|} (DAList.update ''a'' {|''X''|} DAList.empty)"


section \<open>Properties\<close>

subsection \<open>Sorting, the row loop and first lines\<close>

lemma map_insort_key: "map f (insort_key f x xs) = insort (f x) (map f xs)"
  by (induction xs) simp_all

lemma map_sort_key: "map f (sort_key f xs) = sort (map f xs)"
  by (induction xs) (simp_all add: map_insort_key)


lemma length_sorted_items: "length (sorted_items d) = length (items d)"
  by (simp add: sorted_items_def)

lemma for_each_length: "for_each f xs = Inr ys \<Longrightarrow> length ys = length xs"
  by (induction xs arbitrary: ys) (auto split: sum.splits)


lemma for_each_total:
  "(\<And>x. x \<in> set xs \<Longrightarrow> \<exists>y. f x = Inr y) \<Longrightarrow> \<exists>ys. for_each f xs = Inr ys"
proof (induction xs)
  case Nil
  show ?case by simp
next
  case (Cons x xs)
  obtain y where y: "f x = Inr y" using Cons.prems[of x] by auto
  obtain ys where ys: "for_each f xs = Inr ys" using Cons by auto
  show ?case by (simp add: y ys)
qed

lemma splitlines_from_empty: "splitlines_from cur s = [] \<longleftrightarrow> cur = [] \<and> s = []"
  by (induction cur s rule: splitlines_from.induct) auto

lemma first_doc_line_documented: "documented v \<Longrightarrow> \<exists>ln. first_doc_line (attr_doc v) = Inr ln"
  by (auto simp: documented_def first_doc_line_def splitlines_def splitlines_from_empty
      split: option.splits list.splits)



lemma model_line_total: "documented (snd e) \<Longrightarrow> \<exists>r. model_line fmt e = Inr r"
  using first_doc_line_documented[of "snd e"]
  by (auto simp: model_line_def Let_def)




lemma set_sorted_items: "set (sorted_items R) = set (items R)"
  by (simp add: sorted_items_def)


lemma get_model_lines_total:
  assumes "\<And>v. v \<in> set (dict_values R) \<Longrightarrow> documented v"
  shows "\<exists>rows. get_model_lines R fmt = Inr rows"
  unfolding get_model_lines_def
proof (rule for_each_total)
  fix e assume "e \<in> set (sorted_items R)"
  then have "snd e \<in> set (dict_values R)" by (simp add: set_sorted_items dict_values_def)
  then show "\<exists>r. model_line fmt e = Inr r" using assms model_line_total by blast
qed

lemma py_find_absent: "c \<notin> set s \<Longrightarrow> py_find s c = - 1"
  by (induction s) (auto simp: Let_def)

lemma py_find_first: "c \<notin> set pre \<Longrightarrow> py_find (pre @ c # rest) c = int (length pre)"
  by (induction pre) (auto simp: Let_def)

lemma py_slice_from_prefix:
  "py_slice (xs @ ys) (int (length xs)) (int (length xs) + int k) = take k ys"
proof -
  have a: "slice_bound (int (length (xs @ ys))) (int (length xs)) = length xs"
    by (simp add: slice_bound_def)
  have b: "slice_bound (int (length (xs @ ys))) (int (length xs) + int k)
             = min (length xs + k) (length xs + length ys)"
    by (auto simp: slice_bound_def min_def nat_add_distrib)
  have "take (min (length xs + k) (length xs + length ys)) (xs @ ys) = xs @ take k ys"
    by (simp add: min_def)
  then show ?thesis
    unfolding py_slice_def Let_def a b by simp
qed

lemma author_year_decompose:
  assumes "CHR ''['' \<notin> set pre"
    and "CHR '']'' \<notin> set pre \<union> set author \<union> set year"
    and "length year = 4"
  shows "author_year (pre @ CHR ''['' # author @ year @ CHR '']'' # post) = (author, year)"
proof -
  let ?line = "pre @ CHR ''['' # author @ year @ CHR '']'' # post"
  have l: "py_find ?line CHR ''['' = int (length pre)"
    using assms(1) by (rule py_find_first)
  have "py_find ((pre @ CHR ''['' # author @ year) @ CHR '']'' # post) CHR '']''
          = int (length (pre @ CHR ''['' # author @ year))"
    using assms(2) by (intro py_find_first) auto
  then have r: "py_find ?line CHR '']'' = int (length pre) + 1 + int (length author) + 4"
    using assms(3) by simp
  have "py_slice ((pre @ [CHR ''['']) @ author @ year @ CHR '']'' # post)
          (int (length (pre @ [CHR ''['']))) (int (length (pre @ [CHR ''[''])) + int (length author))
        = take (length author) (author @ year @ CHR '']'' # post)"
    by (rule py_slice_from_prefix)
  then have a: "py_slice ?line (1 + int (length pre)) (int (length pre) + 1 + int (length author)) = author"
    by (simp add: algebra_simps)
  have "py_slice ((pre @ CHR ''['' # author) @ year @ CHR '']'' # post)
          (int (length (pre @ CHR ''['' # author))) (int (length (pre @ CHR ''['' # author)) + int (length year))
        = take (length year) (year @ CHR '']'' # post)"
    by (rule py_slice_from_prefix)
  then have y: "py_slice ?line (int (length pre) + 1 + int (length author))
             (int (length pre) + 1 + int (length author) + 4) = year"
    using assms(3) by (simp add: algebra_simps)
  show ?thesis
    unfolding author_year_def l r Let_def using a y by (simp add: algebra_simps)
qed

lemma rst_span_decompose:
  assumes "CHR ''['' \<notin> set pre" and "CHR '']'' \<notin> set pre \<union> set body"
  shows "py_slice (pre @ CHR ''['' # body @ CHR '']'' # post)
           (py_find (pre @ CHR ''['' # body @ CHR '']'' # post) CHR ''['')
           (py_find (pre @ CHR ''['' # body @ CHR '']'' # post) CHR '']'' + 2)
         = CHR ''['' # body @ CHR '']'' # take 1 post"
proof -
  let ?line = "pre @ CHR ''['' # body @ CHR '']'' # post"
  have l: "py_find ?line CHR ''['' = int (length pre)"
    using assms(1) by (rule py_find_first)
  have "py_find ((pre @ CHR ''['' # body) @ CHR '']'' # post) CHR '']''
          = int (length (pre @ CHR ''['' # body))"
    using assms(2) by (intro py_find_first) auto
  then have r: "py_find ?line CHR '']'' + 2 = int (length pre) + int (Suc (length body + 2))"
    by simp
  have t: "take (Suc (length body + 2)) (CHR ''['' # body @ CHR '']'' # post)
             = CHR ''['' # body @ CHR '']'' # take 1 post"
    by (simp add: numeral_2_eq_2)
  show ?thesis
    unfolding l r py_slice_from_prefix t ..
qed

lemma for_each_member:
  "for_each f xs = Inr ys \<Longrightarrow> x \<in> set xs \<Longrightarrow> \<exists>y. f x = Inr y \<and> y \<in> set ys"
  by (induction xs arbitrary: ys) (auto split: sum.splits)

lemma model_line_plain:
  assumes "first_doc_line (attr_doc model) = Inr line"
    and "tablefmt \<noteq> ''rst''" and "tablefmt \<noteq> ''github''"
  shows "model_line tablefmt (name, model)
           = Inr [PStr name, PStr (capitalize (fst (author_year line)) @ '', '' @ snd (author_year line))]"
  using assms by (simp add: model_line_def Let_def)

lemma model_line_rst:
  assumes "first_doc_line (attr_doc model) = Inr line"
  shows "model_line ''rst'' (name, model)
           = Inr [PStr name, PStr ('':class:`poem.models.'' @ name @ ''`''),
                  PStr (py_slice line (py_find line CHR ''['') (py_find line CHR '']'' + 2))]"
  using assms by (simp add: model_line_def Let_def)

subsection \<open>One row per registry entry\<close>





subsection \<open>The citation of a model\<close>

text \<open>
  Claim C2, as amended. \<^verbatim>\<open>_get_model_lines\<close> takes the first \<open>[\<close> and the first
  \<open>]\<close> of the whole line. When no bracket stands before the citation and the citation
  holds no \<open>]\<close>, the four characters before the \<open>]\<close> are the year and the characters
  between the \<open>[\<close> and the year are the author; a line that ends in \<open>[smith2020]\<close>
  after a prefix without brackets yields author \<open>smith\<close>, year \<open>2020\<close> and the plain row
  \<open>(name, 'Smith, 2020')\<close>.
\<close>

theorem citation_author_year:
  assumes "CHR ''['' \<notin> set pre" and "CHR '']'' \<notin> set pre"
  shows "(CHR '']'' \<notin> set author \<union> set year \<and> length year = 4 \<longrightarrow>
            author_year (pre @ CHR ''['' # author @ year @ CHR '']'' # post) = (author, year))
       \<and> author_year (pre @ ''[smith2020]'') = (''smith'', ''2020'')
       \<and> (first_doc_line (attr_doc model) = Inr (pre @ ''[smith2020]'') \<longrightarrow>
            model_line ''plain'' (name, model) = Inr [PStr name, PStr ''Smith, 2020''])"
proof -
  have smith: "author_year (pre @ ''[smith2020]'') = (''smith'', ''2020'')"
    using author_year_decompose [of pre "''smith''" "''2020''" "[]"] assms by simp
  have cap: "capitalize ''smith'' = ''Smith''"
    by code_simp
  have "model_line ''plain'' (name, model) = Inr [PStr name, PStr ''Smith, 2020'']"
    if "first_doc_line (attr_doc model) = Inr (pre @ ''[smith2020]'')"
    using model_line_plain [OF that, of "''plain''" name] smith cap by simp
  moreover have "author_year (pre @ CHR ''['' # author @ year @ CHR '']'' # post) = (author, year)"
    if "CHR '']'' \<notin> set author \<union> set year \<and> length year = 4"
    using author_year_decompose [of pre author year post] assms that by simp
  ultimately show ?thesis using smith by blast
qed

theorem citation_author_year_witness:
  "author_year ''An implementation of TransE [bordes2013]_.'' = (''bordes'', ''2013'')
   \<and> author_year ''The model of Smith [smith2020]'' = (''smith'', ''2020'')
   \<and> first_doc_line (attr_doc smith_model) = Inr ''The model of Smith [smith2020]''
   \<and> model_line ''plain'' (''SmithModel'', smith_model) = Inr [PStr ''SmithModel'', PStr ''Smith, 2020'']"
proof -
  have a: "first_doc_line (attr_doc smith_model) = Inr (''The model of Smith '' @ ''[smith2020]'')"
    by code_simp
  from citation_author_year [of "''The model of Smith ''" "''smith''" "''2020''" "[]" smith_model "''SmithModel''"]
       citation_author_year [of "''An implementation of TransE ''" "''bordes''" "''2013''" "''_.''" smith_model "''SmithModel''"]
       a
  show ?thesis by simp
qed

text \<open>
  As stated, the claim fails on a line that ends in \<open>[smith2020]\<close> and has a \<open>]\<close>
  ahead of the citation: the first \<open>]\<close> of the line is not after the \<open>[\<close>.
\<close>

theorem citation_author_year_counterexample:
  "author_year ''x] [smith2020]'' = (''smith20'', [])
   \<and> author_year ''x] [smith2020]'' \<noteq> (''smith'', ''2020'')
   \<and> model_line ''plain'' (''Stray'', stray_model) = Inr [PStr ''Stray'', PStr ''Smith20, '']"
  by code_simp

text \<open>
  Claim C3, as amended. For a first line whose first \<open>[\<close> comes before its first
  \<open>]\<close>, the third field of the \<open>rst\<close> row is the span from the \<open>[\<close> to the
  \<open>]\<close> followed by the one character after the \<open>]\<close> when the line has one (the
  underscore of a citation reference); it is the bare bracket span only when the \<open>]\<close>
  ends the line.
\<close>

theorem rst_citation_span:
  assumes "CHR ''['' \<notin> set pre" and "CHR '']'' \<notin> set pre \<union> set body"
    and "first_doc_line (attr_doc model) = Inr (pre @ CHR ''['' # body @ CHR '']'' # post)"
  shows "model_line ''rst'' (name, model)
           = Inr [PStr name, PStr ('':class:`poem.models.'' @ name @ ''`''),
                  PStr (CHR ''['' # body @ CHR '']'' # take 1 post)]"
  using model_line_rst [OF assms(3), of name] rst_span_decompose [OF assms(1,2), of post]
  by simp

theorem rst_citation_span_witness:
  "model_line ''rst'' (''ConvE'', conve)
     = Inr [PStr ''ConvE'', PStr '':class:`poem.models.ConvE`'', PStr ''[dettmers2018]_'']
   \<and> model_line ''rst'' (''SmithModel'', smith_model)
     = Inr [PStr ''SmithModel'', PStr '':class:`poem.models.SmithModel`'', PStr ''[smith2020]'']"
proof -
  have a: "first_doc_line (attr_doc conve)
             = Inr (''An implementation of ConvE '' @ CHR ''['' # ''dettmers2018'' @ CHR '']'' # ''_.'')"
    by code_simp
  have b: "first_doc_line (attr_doc smith_model)
             = Inr (''The model of Smith '' @ CHR ''['' # ''smith2020'' @ CHR '']'' # [])"
    by code_simp
  have c: "CHR ''['' \<notin> set ''An implementation of ConvE ''
           \<and> CHR '']'' \<notin> set ''An implementation of ConvE '' \<union> set ''dettmers2018''"
    by simp
  have d: "CHR ''['' \<notin> set ''The model of Smith ''
           \<and> CHR '']'' \<notin> set ''The model of Smith '' \<union> set ''smith2020''"
    by simp
  from rst_citation_span [OF conjunct1 [OF c] conjunct2 [OF c] a, of "''ConvE''"]
       rst_citation_span [OF conjunct1 [OF d] conjunct2 [OF d] b, of "''SmithModel''"]
  show ?thesis by simp
qed

text \<open>As stated, the claim fails on a line that goes on after the citation.\<close>

theorem rst_citation_span_counterexample:
  "model_line ''rst'' (''TransE'', transe)
     = Inr [PStr ''TransE'', PStr '':class:`poem.models.TransE`'', PStr ''[bordes2013]_'']
   \<and> model_line ''rst'' (''TransE'', transe)
     \<noteq> Inr [PStr ''TransE'', PStr '':class:`poem.models.TransE`'', PStr ''[bordes2013]'']"
  by code_simp

subsection \<open>Lines without a citation\<close>

lemma model_line_uncited:
  assumes "first_doc_line (attr_doc model) = Inr line"
    and "CHR ''['' \<notin> set line" and "CHR '']'' \<notin> set line"
  shows "model_line tablefmt (name, model) =
     (if tablefmt = ''rst'' then
        Inr [PStr name, PStr ('':class:`poem.models.'' @ name @ ''`''), PStr (py_slice line (- 1) 1)]
      else if tablefmt = ''github'' then
        Inr [PStr name, PStr (''`poem.models.'' @ name @ ''`''),
             PStr (capitalize (py_slice line 0 (- 5)) @ '' *et al.*, '' @ py_slice line (- 5) (- 1))]
      else
        Inr [PStr name,
             PStr (capitalize (py_slice line 0 (- 5)) @ '', '' @ py_slice line (- 5) (- 1))])"
  using assms by (simp add: model_line_def author_year_def Let_def py_find_absent)

lemma model_line_first_line:
  "first_doc_line (attr_doc (snd e)) = Inr line \<Longrightarrow> \<exists>r. model_line tablefmt e = Inr r"
  by (simp add: model_line_def Let_def)

text \<open>
  Claim C4. When the first documentation line of every model lacks a bracket,
  \<^verbatim>\<open>_get_model_lines\<close> raises nothing and yields a row per model, in the formats
  \<open>plain\<close>, \<open>rst\<close> and \<open>github\<close> as in any other. With neither bracket in the line both
  searches give -1, and the fields are the slices \<^verbatim>\<open>line[-1:1]\<close>, \<^verbatim>\<open>line[0:-5]\<close> and
  \<^verbatim>\<open>line[-5:-1]\<close>.
\<close>

theorem uncited_models_never_raise:
  assumes "\<forall>v \<in> set (dict_values R). uncited v"
  shows "(\<exists>rows. get_model_lines R tablefmt = Inr rows \<and> length rows = length (items R))
       \<and> (\<forall>name model line.
             first_doc_line (attr_doc model) = Inr line \<and> CHR ''['' \<notin> set line \<and> CHR '']'' \<notin> set line
             \<longrightarrow>
             model_line ''rst'' (name, model)
               = Inr [PStr name, PStr ('':class:`poem.models.'' @ name @ ''`''),
                      PStr (py_slice line (- 1) 1)]
             \<and> model_line ''github'' (name, model)
               = Inr [PStr name, PStr (''`poem.models.'' @ name @ ''`''),
                      PStr (capitalize (py_slice line 0 (- 5)) @ '' *et al.*, ''
                            @ py_slice line (- 5) (- 1))]
             \<and> model_line ''plain'' (name, model)
               = Inr [PStr name,
                      PStr (capitalize (py_slice line 0 (- 5)) @ '', '' @ py_slice line (- 5) (- 1))])"
proof -
  have "\<exists>r. model_line tablefmt e = Inr r" if "e \<in> set (sorted_items R)" for e
  proof -
    from that have "snd e \<in> set (dict_values R)"
      by (simp add: set_sorted_items dict_values_def)
    with assms have "uncited (snd e)" by blast
    then obtain line where "first_doc_line (attr_doc (snd e)) = Inr line"
      by (auto simp: uncited_def split: sum.splits)
    then show ?thesis by (rule model_line_first_line)
  qed
  then obtain rows where rows: "for_each (model_line tablefmt) (sorted_items R) = Inr rows"
    using for_each_total [of "sorted_items R" "model_line tablefmt"] by blast
  then have "length rows = length (items R)"
    using for_each_length [OF rows] by (simp add: length_sorted_items)
  with rows have a: "\<exists>rows. get_model_lines R tablefmt = Inr rows \<and> length rows = length (items R)"
    by (simp add: get_model_lines_def)
  have "model_line ''rst'' (name, model)
               = Inr [PStr name, PStr ('':class:`poem.models.'' @ name @ ''`''),
                      PStr (py_slice line (- 1) 1)]
             \<and> model_line ''github'' (name, model)
               = Inr [PStr name, PStr (''`poem.models.'' @ name @ ''`''),
                      PStr (capitalize (py_slice line 0 (- 5)) @ '' *et al.*, ''
                            @ py_slice line (- 5) (- 1))]
             \<and> model_line ''plain'' (name, model)
               = Inr [PStr name,
                      PStr (capitalize (py_slice line 0 (- 5)) @ '', '' @ py_slice line (- 5) (- 1))]"
    if "first_doc_line (attr_doc model) = Inr line \<and> CHR ''['' \<notin> set line \<and> CHR '']'' \<notin> set line"
    for name model line
    using model_line_uncited [of model line "''rst''" name]
      model_line_uncited [of model line "''github''" name]
      model_line_uncited [of model line "''plain''" name] that
    by simp
  with a show ?thesis by blast
qed

theorem uncited_models_never_raise_witness:
  "dict_values uncited_models = [plain_model] \<and> uncited plain_model
   \<and> get_model_lines uncited_models ''plain''
       = Inr [[PStr ''PlainModel'', PStr ''A model with no cit, atio'']]
   \<and> get_model_lines uncited_models ''rst''
       = Inr [[PStr ''PlainModel'', PStr '':class:`poem.models.PlainModel`'', PStr []]]
   \<and> get_model_lines uncited_models ''github''
       = Inr [[PStr ''PlainModel'', PStr ''`poem.models.PlainModel`'',
               PStr ''A model with no cit *et al.*, atio'']]"
proof -
  have a: "dict_values uncited_models = [plain_model] \<and> uncited plain_model"
    by code_simp
  then have h: "\<forall>v \<in> set (dict_values uncited_models). uncited v" by simp
  have b: "get_model_lines uncited_models ''plain''
       = Inr [[PStr ''PlainModel'', PStr ''A model with no cit, atio'']]"
    by code_simp
  have c: "get_model_lines uncited_models ''rst''
       = Inr [[PStr ''PlainModel'', PStr '':class:`poem.models.PlainModel`'', PStr []]]"
    by code_simp
  have d: "get_model_lines uncited_models ''github''
       = Inr [[PStr ''PlainModel'', PStr ''`poem.models.PlainModel`'',
               PStr ''A model with no cit *et al.*, atio'']]"
    by code_simp
  from uncited_models_never_raise [OF h, of "''plain''"] a b c d show ?thesis by simp
qed

subsection \<open>Unrecognized formats\<close>

lemma get_line_other:
  assumes "fmt \<noteq> ''rst''" and "fmt \<noteq> ''github''"
  shows "get_line fmt sub e = get_line ''plain'' sub e"
  using assms by (simp add: get_line_def)

lemma model_line_other:
  assumes "fmt \<noteq> ''rst''" and "fmt \<noteq> ''github''"
  shows "model_line fmt e = model_line ''plain'' e"
proof (cases "first_doc_line (attr_doc (snd e))")
  case (Inl err)
  then show ?thesis by (simp add: model_line_def)
next
  case (Inr line)
  then show ?thesis using assms by (simp add: model_line_def)
qed

text \<open>
  Claim C5. For a format that is neither \<open>rst\<close> nor \<open>github\<close>, both row functions give
  what they give for \<open>plain\<close>, rows and exceptions alike.
\<close>

theorem unrecognized_format_as_plain:
  assumes "fmt \<noteq> ''rst''" and "fmt \<noteq> ''github''"
  shows "get_lines R fmt sub = get_lines R ''plain'' sub
         \<and> get_model_lines R fmt = get_model_lines R ''plain''"
proof -
  have "get_line fmt sub = get_line ''plain'' sub"
    using get_line_other [OF assms] by (rule ext)
  moreover have "model_line fmt = model_line ''plain''"
    using model_line_other [OF assms] by (rule ext)
  ultimately show ?thesis
    by (simp only: get_lines_def get_model_lines_def)
qed

theorem unrecognized_format_as_plain_witness:
  "get_model_lines two_models ''fancy''
       = Inr [[PStr ''ConvE'', PStr ''Dettmers, 2018''], [PStr ''TransE'', PStr ''Bordes, 2013'']]
   \<and> get_lines two_models ''fancy'' ''datasets''
       = Inr [[PStr ''ConvE'', PStr ''An implementation of ConvE [dettmers2018]_.''],
            [PStr ''TransE'', PStr ''An implementation of TransE [bordes2013]_.'']]"
proof -
  have a: "get_model_lines two_models ''plain''
       = Inr [[PStr ''ConvE'', PStr ''Dettmers, 2018''], [PStr ''TransE'', PStr ''Bordes, 2013'']]"
    by code_simp
  have b: "get_lines two_models ''plain'' ''datasets''
       = Inr [[PStr ''ConvE'', PStr ''An implementation of ConvE [dettmers2018]_.''],
            [PStr ''TransE'', PStr ''An implementation of TransE [bordes2013]_.'']]"
    by code_simp
  have c: "''fancy'' \<noteq> ''rst''" and d: "''fancy'' \<noteq> ''github''"
    by simp_all
  from unrecognized_format_as_plain [OF c d, of two_models "''datasets''"]
  show ?thesis by (simp only: a b)
qed

subsection \<open>Missing documentation\<close>

lemma get_line_github_no_doc:
  assumes "attr_doc v = None"
  shows "get_line ''github'' sub (name, v)
           = Inr [PStr name, PStr (''`poem.'' @ sub @ ''.'' @ name @ ''`''),
                  (case class_doc v of None \<Rightarrow> PNone | Some d \<Rightarrow> PStr d)]"
  using assms by (simp add: get_line_def first_doc_line_def split: option.splits)

lemma get_line_github_total:
  assumes "attr_doc (snd e) \<noteq> Some []"
  shows "\<exists>r. get_line ''github'' sub e = Inr r"
proof (cases "attr_doc (snd e)")
  case None
  then show ?thesis
    by (simp add: get_line_def first_doc_line_def Let_def split: option.splits)
next
  case (Some s)
  with assms have "splitlines s \<noteq> []"
    by (simp add: splitlines_def splitlines_from_empty)
  then obtain ln rest where "splitlines s = ln # rest"
    by (cases "splitlines s") auto
  with Some show ?thesis
    by (simp add: get_line_def first_doc_line_def Let_def split: option.splits)
qed

lemma model_line_no_doc: "attr_doc v = None \<Longrightarrow> model_line fmt (name, v) = Inl AttributeError"
  by (simp add: model_line_def first_doc_line_def)

text \<open>
  Claim C6, as amended. For an entry whose own documentation is None, the \<open>github\<close> row
  of \<^verbatim>\<open>_get_lines\<close> refers to the entry by its registry name and carries the
  documentation of the entry's class as description, which is None when the class has none.
  A missing documentation raises nothing there: the \<open>github\<close> rows are all yielded
  unless some documentation is the empty string. \<^verbatim>\<open>_get_model_lines\<close> has no
  fallback; a registry with an entry whose documentation is None makes it raise.
\<close>

theorem github_documentation_fallback:
  assumes "(name, v) \<in> set (items R)" and "attr_doc v = None"
  shows "(\<forall>rows. get_lines R ''github'' sub = Inr rows \<longrightarrow>
            [PStr name, PStr (''`poem.'' @ sub @ ''.'' @ name @ ''`''),
             (case class_doc v of None \<Rightarrow> PNone | Some d \<Rightarrow> PStr d)] \<in> set rows)
       \<and> ((\<forall>w \<in> set (dict_values R). attr_doc w \<noteq> Some []) \<longrightarrow>
            (\<exists>rows. get_lines R ''github'' sub = Inr rows))
       \<and> (\<exists>e. get_model_lines R fmt = Inl e)"
proof -
  have mem: "(name, v) \<in> set (sorted_items R)"
    using assms(1) by (simp add: set_sorted_items)
  have "[PStr name, PStr (''`poem.'' @ sub @ ''.'' @ name @ ''`''),
             (case class_doc v of None \<Rightarrow> PNone | Some d \<Rightarrow> PStr d)] \<in> set rows"
    if "get_lines R ''github'' sub = Inr rows" for rows
    using for_each_member [OF that [unfolded get_lines_def] mem]
      get_line_github_no_doc [OF assms(2), of sub name] by auto
  moreover have "\<exists>rows. get_lines R ''github'' sub = Inr rows"
    if "\<forall>w \<in> set (dict_values R). attr_doc w \<noteq> Some []"
    unfolding get_lines_def
  proof (rule for_each_total)
    fix e assume "e \<in> set (sorted_items R)"
    then have "snd e \<in> set (dict_values R)"
      by (simp add: set_sorted_items dict_values_def)
    with that have "attr_doc (snd e) \<noteq> Some []" by blast
    then show "\<exists>r. get_line ''github'' sub e = Inr r"
      by (rule get_line_github_total)
  qed
  moreover have "\<exists>e. get_model_lines R fmt = Inl e"
  proof (cases "get_model_lines R fmt")
    case (Inl e)
    then show ?thesis by blast
  next
    case (Inr rows)
    from for_each_member [OF Inr [unfolded get_model_lines_def] mem]
      model_line_no_doc [OF assms(2), of fmt name]
    show ?thesis by simp
  qed
  ultimately show ?thesis by blast
qed

theorem github_documentation_fallback_witness:
  "(''mrr'', undocumented_class) \<in> set (items undocumented_registry)
   \<and> attr_doc undocumented_class = None
   \<and> get_lines undocumented_registry ''github'' ''evaluators''
       = Inr [[PStr ''mrr'', PStr ''`poem.evaluators.mrr`'', PStr ''The type of a class.'']]
   \<and> get_model_lines undocumented_registry ''github'' = Inl AttributeError"
proof -
  have a: "(''mrr'', undocumented_class) \<in> set (items undocumented_registry)"
    by code_simp
  have b: "attr_doc undocumented_class = None"
    by code_simp
  have c: "get_lines undocumented_registry ''github'' ''evaluators''
       = Inr [[PStr ''mrr'', PStr ''`poem.evaluators.mrr`'', PStr ''The type of a class.'']]"
    by code_simp
  have d: "get_model_lines undocumented_registry ''github'' = Inl AttributeError"
    by code_simp
  from github_documentation_fallback [OF a b, of "''evaluators''" "''github''"] a b c d
  show ?thesis by simp
qed

text \<open>
  As stated, the claim fails on an instance without documentation whose class has none
  either: None goes into the row.
\<close>

theorem github_documentation_fallback_counterexample:
  "get_lines bare_registry ''github'' ''evaluators''
     = Inr [[PStr ''hits_at_k'', PStr ''`poem.evaluators.hits_at_k`'', PNone]]"
  by code_simp

subsection \<open>The parameters listing\<close>

lemma distinct_keys_items: "distinct (map fst (items d))"
  by (simp add: items_def)

text \<open>
  Claim C8. \<^verbatim>\<open>ls parameters\<close> lists exactly the entries of the usage dictionary
  whose name is neither annotated in the base constructor nor \<open>init\<close>, in strictly
  ascending order of the names, each name numbered from 1 and followed by the names of its
  classes in ascending order. With base parameters \<open>a, b\<close> and the usages
  \<open>{a: {X}, c: {Y, Z}}\<close> the result is \<open>[(c, {Y, Z})]\<close>.
\<close>

theorem hyperparameter_usage_listing:
  "sorted (map fst (hyperparameter_usage annotations usage))
   \<and> distinct (map fst (hyperparameter_usage annotations usage))
   \<and> set (hyperparameter_usage annotations usage)
       = {kv \<in> set (items usage). fst kv \<notin> set annotations \<and> fst kv \<noteq> ''init''}
   \<and> parameters annotations usage =
       (''Names of __init__() parameters in all classes:'' @ [CHR 0x0A]
        @ concat (map (\<lambda>e. rjust 2 (str_nat (fst e)) @ ''. '' @ fst (snd e) @ [CHR 0x0A]
                          @ concat (map (\<lambda>v. ''    - '' @ v @ [CHR 0x0A])
                                      (sorted_list_of_fset (snd (snd e)))))
                    (zip [1 ..< Suc (length (hyperparameter_usage annotations usage))]
                         (hyperparameter_usage annotations usage))),
        None)
   \<and> hyperparameter_usage [''a'', ''b''] example_usage = [(''c'', {|''Y'', ''Z''|})]
   \<and> parameters [''a'', ''b''] example_usage =
       (''Names of __init__() parameters in all classes:'' @ [CHR 0x0A]
        @ '' 1. c'' @ [CHR 0x0A] @ ''    - Y'' @ [CHR 0x0A] @ ''    - Z'' @ [CHR 0x0A], None)"
proof -
  have s: "sorted (map fst (hyperparameter_usage annotations usage))"
    by (simp add: hyperparameter_usage_def sorted_sort_key)
  have "distinct (map fst (filter (\<lambda>kv. fst kv \<notin> base_parameters annotations) (items usage)))"
    by (rule distinct_map_filter) (rule distinct_keys_items)
  then have d: "distinct (map fst (hyperparameter_usage annotations usage))"
    by (simp add: hyperparameter_usage_def map_sort_key)
  have m: "set (hyperparameter_usage annotations usage)
       = {kv \<in> set (items usage). fst kv \<notin> set annotations \<and> fst kv \<noteq> ''init''}"
    by (auto simp: hyperparameter_usage_def base_parameters_def)
  have p: "parameters annotations usage =
       (''Names of __init__() parameters in all classes:'' @ [CHR 0x0A]
        @ concat (map (\<lambda>e. rjust 2 (str_nat (fst e)) @ ''. '' @ fst (snd e) @ [CHR 0x0A]
                          @ concat (map (\<lambda>v. ''    - '' @ v @ [CHR 0x0A])
                                      (sorted_list_of_fset (snd (snd e)))))
                    (zip [1 ..< Suc (length (hyperparameter_usage annotations usage))]
                         (hyperparameter_usage annotations usage))),
        None)"
    unfolding parameters_def enumerate1_def parameter_block_def echo_def Let_def fst_conv
    by simp
  have e1: "hyperparameter_usage [''a'', ''b''] example_usage = [(''c'', {|''Y'', ''Z''|})]"
    by code_simp
  have e2: "parameters [''a'', ''b''] example_usage =
       (''Names of __init__() parameters in all classes:'' @ [CHR 0x0A]
        @ '' 1. c'' @ [CHR 0x0A] @ ''    - Y'' @ [CHR 0x0A] @ ''    - Z'' @ [CHR 0x0A], None)"
    by code_simp
  from s d m p e1 e2 show ?thesis by blast
qed

subsection \<open>Registration under train\<close>












subsection \<open>Headers and rows of the listing commands\<close>

lemma get_line_arity:
  assumes "tablefmt \<noteq> ''github''" and "get_line tablefmt sub e = Inr r"
  shows "length r = 2"
  using assms by (auto simp: get_line_def Let_def split: if_splits sum.splits)

lemma for_each_result:
  "for_each f xs = Inr ys \<Longrightarrow> y \<in> set ys \<Longrightarrow> \<exists>x \<in> set xs. f x = Inr y"
  by (induction xs arbitrary: ys) (auto split: sum.splits)

lemma get_lines_arity:
  assumes "tablefmt \<noteq> ''github''" and "get_lines d tablefmt sub = Inr rows" and "r \<in> set rows"
  shows "length r = 2"
proof -
  obtain e where "get_line tablefmt sub e = Inr r"
    using for_each_result [OF assms(2) [unfolded get_lines_def] assms(3)] by blast
  then show ?thesis by (rule get_line_arity [OF assms(1)])
qed

lemma listing_headers:
  assumes "tablefmt \<noteq> ''plain''"
  shows "datasets tab regs tablefmt =
           (case get_lines (data_sets regs) tablefmt ''datasets'' of
              Inl e \<Rightarrow> raise e
            | Inr lines \<Rightarrow> echo (tab lines [''Name'', ''Reference'', ''Description''] tablefmt))"
    and "training tab regs tablefmt =
           (case get_lines (training_dict regs) tablefmt ''training'' of
              Inl e \<Rightarrow> raise e
            | Inr lines \<Rightarrow> echo (tab lines [''Name'', ''Reference'', ''Description''] tablefmt))"
    and "samplers tab regs tablefmt =
           (case get_lines (samplers_dict regs) tablefmt ''sampling'' of
              Inl e \<Rightarrow> raise e
            | Inr lines \<Rightarrow> echo (tab lines [''Name'', ''Reference'', ''Description''] tablefmt))"
    and "evaluators tab regs tablefmt =
           (case get_lines (evaluators_dict regs) tablefmt ''evaluators'' of
              Inl e \<Rightarrow> raise e
            | Inr lines \<Rightarrow> echo (tab lines [''Name'', ''Reference'', ''Description''] tablefmt))"
    and "metrics tab regs tablefmt =
           (case get_lines (metrics_dict regs) tablefmt ''evaluators'' of
              Inl e \<Rightarrow> raise e
            | Inr lines \<Rightarrow> echo (tab lines [''Name'', ''Reference'', ''Description''] tablefmt))"
  using assms
  by (simp_all add: datasets_def training_def samplers_def evaluators_def metrics_def)

text \<open>
  Claim C10. For a format other than \<open>plain\<close>, \<open>rst\<close> and \<open>github\<close>, each of the
  commands datasets, training, samplers, evaluators and metrics hands the renderer the three
  headers Name, Reference, Description together with rows of two fields each.
\<close>

theorem unrecognized_format_header_row_mismatch:
  assumes "tablefmt \<notin> {''plain'', ''rst'', ''github''}"
  shows "(\<forall>rows. get_lines (data_sets regs) tablefmt ''datasets'' = Inr rows \<longrightarrow>
            datasets tab regs tablefmt
              = echo (tab rows [''Name'', ''Reference'', ''Description''] tablefmt)
            \<and> (\<forall>r \<in> set rows. length r = 2))
       \<and> (\<forall>rows. get_lines (training_dict regs) tablefmt ''training'' = Inr rows \<longrightarrow>
            training tab regs tablefmt
              = echo (tab rows [''Name'', ''Reference'', ''Description''] tablefmt)
            \<and> (\<forall>r \<in> set rows. length r = 2))
       \<and> (\<forall>rows. get_lines (samplers_dict regs) tablefmt ''sampling'' = Inr rows \<longrightarrow>
            samplers tab regs tablefmt
              = echo (tab rows [''Name'', ''Reference'', ''Description''] tablefmt)
            \<and> (\<forall>r \<in> set rows. length r = 2))
       \<and> (\<forall>rows. get_lines (evaluators_dict regs) tablefmt ''evaluators'' = Inr rows \<longrightarrow>
            evaluators tab regs tablefmt
              = echo (tab rows [''Name'', ''Reference'', ''Description''] tablefmt)
            \<and> (\<forall>r \<in> set rows. length r = 2))
       \<and> (\<forall>rows. get_lines (metrics_dict regs) tablefmt ''evaluators'' = Inr rows \<longrightarrow>
            metrics tab regs tablefmt
              = echo (tab rows [''Name'', ''Reference'', ''Description''] tablefmt)
            \<and> (\<forall>r \<in> set rows. length r = 2))"
proof -
  from assms have p: "tablefmt \<noteq> ''plain''" and g: "tablefmt \<noteq> ''github''"
    by simp_all
  have two: "\<forall>r \<in> set rows. length r = 2" if "get_lines d tablefmt sub = Inr rows" for d sub rows
    using get_lines_arity [OF g that] by blast
  show ?thesis
    by (simp add: listing_headers [OF p] two)
qed

theorem unrecognized_format_header_row_mismatch_witness:
  "get_lines (training_dict example_registries) ''fancy'' ''training''
     = Inr [[PStr ''owa'', PStr ''A training loop that uses the open world assumption.'']]
   \<and> training bar_table example_registries ''fancy''
     = (''Name | Reference | Description'' @ [CHR 0x0A]
        @ ''owa | A training loop that uses the open world assumption.'' @ [CHR 0x0A], None)
   \<and> length [PStr ''owa'', PStr ''A training loop that uses the open world assumption.''] = 2"
proof -
  have f: "''fancy'' \<notin> {''plain'', ''rst'', ''github''}"
    by simp
  have a: "get_lines (training_dict example_registries) ''fancy'' ''training''
     = Inr [[PStr ''owa'', PStr ''A training loop that uses the open world assumption.'']]"
    by code_simp
  have b: "echo (bar_table [[PStr ''owa'', PStr ''A training loop that uses the open world assumption.'']]
             [''Name'', ''Reference'', ''Description''] ''fancy'')
     = (''Name | Reference | Description'' @ [CHR 0x0A]
        @ ''owa | A training loop that uses the open world assumption.'' @ [CHR 0x0A], None)"
    by code_simp
  from unrecognized_format_header_row_mismatch [OF f, of example_registries bar_table] a b
  show ?thesis by simp
qed

subsection \<open>The readme\<close>

lemma then_do_echo: "then_do (echo msg) b = (msg @ CHR 0x0A # fst b, snd b)"
  by (simp add: then_do_def echo_def)

lemma listing_github:
  "get_model_lines (models_dict regs) ''github'' = Inr r1 \<Longrightarrow>
     models tab regs ''github'' = echo (tab r1 [''Name'', ''Reference'', ''Citation''] ''github'')"
  "get_lines (data_sets regs) ''github'' ''datasets'' = Inr r2 \<Longrightarrow>
     datasets tab regs ''github'' = echo (tab r2 [''Name'', ''Reference'', ''Description''] ''github'')"
  "get_lines (training_dict regs) ''github'' ''training'' = Inr r3 \<Longrightarrow>
     training tab regs ''github'' = echo (tab r3 [''Name'', ''Reference'', ''Description''] ''github'')"
  "get_lines (evaluators_dict regs) ''github'' ''evaluators'' = Inr r4 \<Longrightarrow>
     evaluators tab regs ''github'' = echo (tab r4 [''Name'', ''Reference'', ''Description''] ''github'')"
  "get_lines (metrics_dict regs) ''github'' ''evaluators'' = Inr r5 \<Longrightarrow>
     metrics tab regs ''github'' = echo (tab r5 [''Name'', ''Reference'', ''Description''] ''github'')"
  by (simp_all add: models_def datasets_def training_def evaluators_def metrics_def)

lemma empty_registry_rows:
  "items d = [] \<Longrightarrow> get_lines d fmt sub = Inr []"
  "items d = [] \<Longrightarrow> get_model_lines d fmt = Inr []"
  by (simp_all add: get_lines_def get_model_lines_def sorted_items_def)

lemma github_readme_output:
  assumes "get_model_lines (models_dict regs) ''github'' = Inr r1"
    and "get_lines (data_sets regs) ''github'' ''datasets'' = Inr r2"
    and "get_lines (training_dict regs) ''github'' ''training'' = Inr r3"
    and "get_lines (evaluators_dict regs) ''github'' ''evaluators'' = Inr r4"
    and "get_lines (metrics_dict regs) ''github'' ''evaluators'' = Inr r5"
  shows "github_readme tab regs =
          (''### Models'' @ [CHR 0x0A, CHR 0x0A]
           @ tab r1 [''Name'', ''Reference'', ''Citation''] ''github'' @ [CHR 0x0A, CHR 0x0A]
           @ ''### Data Sets'' @ [CHR 0x0A, CHR 0x0A]
           @ tab r2 [''Name'', ''Reference'', ''Description''] ''github'' @ [CHR 0x0A, CHR 0x0A]
           @ ''### Training Modes'' @ [CHR 0x0A, CHR 0x0A]
           @ tab r3 [''Name'', ''Reference'', ''Description''] ''github'' @ [CHR 0x0A, CHR 0x0A]
           @ ''### Evaluators'' @ [CHR 0x0A, CHR 0x0A]
           @ tab r4 [''Name'', ''Reference'', ''Description''] ''github'' @ [CHR 0x0A, CHR 0x0A]
           @ ''### Metrics'' @ [CHR 0x0A, CHR 0x0A]
           @ tab r5 [''Name'', ''Reference'', ''Description''] ''github'' @ [CHR 0x0A],
           None)
       \<and> (items (models_dict regs) = [] \<longrightarrow> r1 = [])
       \<and> (items (data_sets regs) = [] \<longrightarrow> r2 = [])
       \<and> (items (training_dict regs) = [] \<longrightarrow> r3 = [])
       \<and> (items (evaluators_dict regs) = [] \<longrightarrow> r4 = [])
       \<and> (items (metrics_dict regs) = [] \<longrightarrow> r5 = [])"
proof -
  have out: "github_readme tab regs =
          (''### Models'' @ [CHR 0x0A, CHR 0x0A]
           @ tab r1 [''Name'', ''Reference'', ''Citation''] ''github'' @ [CHR 0x0A, CHR 0x0A]
           @ ''### Data Sets'' @ [CHR 0x0A, CHR 0x0A]
           @ tab r2 [''Name'', ''Reference'', ''Description''] ''github'' @ [CHR 0x0A, CHR 0x0A]
           @ ''### Training Modes'' @ [CHR 0x0A, CHR 0x0A]
           @ tab r3 [''Name'', ''Reference'', ''Description''] ''github'' @ [CHR 0x0A, CHR 0x0A]
           @ ''### Evaluators'' @ [CHR 0x0A, CHR 0x0A]
           @ tab r4 [''Name'', ''Reference'', ''Description''] ''github'' @ [CHR 0x0A, CHR 0x0A]
           @ ''### Metrics'' @ [CHR 0x0A, CHR 0x0A]
           @ tab r5 [''Name'', ''Reference'', ''Description''] ''github'' @ [CHR 0x0A],
           None)"
    unfolding github_readme_def listing_github(1) [OF assms(1)] listing_github(2) [OF assms(2)]
      listing_github(3) [OF assms(3)] listing_github(4) [OF assms(4)]
      listing_github(5) [OF assms(5)] then_do_echo
    by (simp add: echo_def)
  have "r1 = []" if "items (models_dict regs) = []"
    using empty_registry_rows(2) [OF that, of "''github''"] assms(1) by simp
  moreover have "r2 = []" if "items (data_sets regs) = []"
    using empty_registry_rows(1) [OF that, of "''github''" "''datasets''"] assms(2) by simp
  moreover have "r3 = []" if "items (training_dict regs) = []"
    using empty_registry_rows(1) [OF that, of "''github''" "''training''"] assms(3) by simp
  moreover have "r4 = []" if "items (evaluators_dict regs) = []"
    using empty_registry_rows(1) [OF that, of "''github''" "''evaluators''"] assms(4) by simp
  moreover have "r5 = []" if "items (metrics_dict regs) = []"
    using empty_registry_rows(1) [OF that, of "''github''" "''evaluators''"] assms(5) by simp
  ultimately show ?thesis using out by blast
qed

lemma get_lines_github_total:
  assumes "\<forall>w \<in> set (dict_values R). attr_doc w \<noteq> Some []"
  shows "\<exists>rows. get_lines R ''github'' sub = Inr rows"
  unfolding get_lines_def
proof (rule for_each_total)
  fix e assume "e \<in> set (sorted_items R)"
  then have "snd e \<in> set (dict_values R)"
    by (simp add: set_sorted_items dict_values_def)
  with assms have "attr_doc (snd e) \<noteq> Some []" by blast
  then show "\<exists>r. get_line ''github'' sub e = Inr r"
    by (rule get_line_github_total)
qed

text \<open>
  Claim C7, as amended. When the documentation of every model has a first line and no entry
  of the data sets, training modes, evaluators and metrics has the empty string as its
  documentation, \<^verbatim>\<open>github-readme\<close> raises nothing and writes five sections in the order
  models, data sets, training modes, evaluators, metrics: each is a \<open>###\<close> header line, a
  blank line and the table rendered for the \<open>github\<close> format from the rows of the registry,
  and a blank line parts a table from the next header. A section whose registry is empty is
  written all the same, with a table of no rows.
\<close>

theorem github_readme_five_sections:
  assumes "\<forall>v \<in> set (dict_values (models_dict regs)). documented v"
    and "\<forall>v \<in> set (dict_values (data_sets regs)) \<union> set (dict_values (training_dict regs))
             \<union> set (dict_values (evaluators_dict regs)) \<union> set (dict_values (metrics_dict regs)).
           attr_doc v \<noteq> Some []"
  shows "\<exists>r1 r2 r3 r4 r5.
           get_model_lines (models_dict regs) ''github'' = Inr r1
           \<and> get_lines (data_sets regs) ''github'' ''datasets'' = Inr r2
           \<and> get_lines (training_dict regs) ''github'' ''training'' = Inr r3
           \<and> get_lines (evaluators_dict regs) ''github'' ''evaluators'' = Inr r4
           \<and> get_lines (metrics_dict regs) ''github'' ''evaluators'' = Inr r5
           \<and> github_readme tab regs =
              (''### Models'' @ [CHR 0x0A, CHR 0x0A]
               @ tab r1 [''Name'', ''Reference'', ''Citation''] ''github'' @ [CHR 0x0A, CHR 0x0A]
               @ ''### Data Sets'' @ [CHR 0x0A, CHR 0x0A]
               @ tab r2 [''Name'', ''Reference'', ''Description''] ''github'' @ [CHR 0x0A, CHR 0x0A]
               @ ''### Training Modes'' @ [CHR 0x0A, CHR 0x0A]
               @ tab r3 [''Name'', ''Reference'', ''Description''] ''github'' @ [CHR 0x0A, CHR 0x0A]
               @ ''### Evaluators'' @ [CHR 0x0A, CHR 0x0A]
               @ tab r4 [''Name'', ''Reference'', ''Description''] ''github'' @ [CHR 0x0A, CHR 0x0A]
               @ ''### Metrics'' @ [CHR 0x0A, CHR 0x0A]
               @ tab r5 [''Name'', ''Reference'', ''Description''] ''github'' @ [CHR 0x0A],
               None)
           \<and> (items (models_dict regs) = [] \<longrightarrow> r1 = [])
           \<and> (items (data_sets regs) = [] \<longrightarrow> r2 = [])
           \<and> (items (training_dict regs) = [] \<longrightarrow> r3 = [])
           \<and> (items (evaluators_dict regs) = [] \<longrightarrow> r4 = [])
           \<and> (items (metrics_dict regs) = [] \<longrightarrow> r5 = [])"
proof -
  obtain r1 where r1: "get_model_lines (models_dict regs) ''github'' = Inr r1"
    using get_model_lines_total [of "models_dict regs" "''github''"] assms(1) by blast
  obtain r2 where r2: "get_lines (data_sets regs) ''github'' ''datasets'' = Inr r2"
    using get_lines_github_total [of "data_sets regs" "''datasets''"] assms(2) by blast
  obtain r3 where r3: "get_lines (training_dict regs) ''github'' ''training'' = Inr r3"
    using get_lines_github_total [of "training_dict regs" "''training''"] assms(2) by blast
  obtain r4 where r4: "get_lines (evaluators_dict regs) ''github'' ''evaluators'' = Inr r4"
    using get_lines_github_total [of "evaluators_dict regs" "''evaluators''"] assms(2) by blast
  obtain r5 where r5: "get_lines (metrics_dict regs) ''github'' ''evaluators'' = Inr r5"
    using get_lines_github_total [of "metrics_dict regs" "''evaluators''"] assms(2) by blast
  from github_readme_output [OF r1 r2 r3 r4 r5, of tab] r1 r2 r3 r4 r5
  show ?thesis by blast
qed

theorem github_readme_five_sections_witness:
  "items (data_sets example_registries) = []
   \<and> get_lines (data_sets example_registries) ''github'' ''datasets'' = Inr []
   \<and> github_readme bar_table example_registries =
       (''### Models'' @ [CHR 0x0A, CHR 0x0A]
        @ ''Name | Reference | Citation'' @ [CHR 0x0A]
        @ ''ConvE | `poem.models.ConvE` | Dettmers *et al.*, 2018'' @ [CHR 0x0A]
        @ ''TransE | `poem.models.TransE` | Bordes *et al.*, 2013'' @ [CHR 0x0A, CHR 0x0A]
        @ ''### Data Sets'' @ [CHR 0x0A, CHR 0x0A]
        @ ''Name | Reference | Description'' @ [CHR 0x0A, CHR 0x0A]
        @ ''### Training Modes'' @ [CHR 0x0A, CHR 0x0A]
        @ ''Name | Reference | Description'' @ [CHR 0x0A]
        @ ''owa | `poem.training.OWATrainingLoop` | A training loop that uses the open world assumption.''
        @ [CHR 0x0A, CHR 0x0A]
        @ ''### Evaluators'' @ [CHR 0x0A, CHR 0x0A]
        @ ''Name | Reference | Description'' @ [CHR 0x0A]
        @ ''rankbased | `poem.evaluators.RankBasedEvaluator` | A rank-based evaluator for KGE models.''
        @ [CHR 0x0A, CHR 0x0A]
        @ ''### Metrics'' @ [CHR 0x0A, CHR 0x0A]
        @ ''Name | Reference | Description'' @ [CHR 0x0A]
        @ ''mr | `poem.evaluators.mean_rank` | The mean rank.'' @ [CHR 0x0A],
        None)"
proof -
  have a1: "get_model_lines (models_dict example_registries) ''github''
      = Inr [[PStr ''ConvE'', PStr ''`poem.models.ConvE`'', PStr ''Dettmers *et al.*, 2018''],
             [PStr ''TransE'', PStr ''`poem.models.TransE`'', PStr ''Bordes *et al.*, 2013'']]"
    by code_simp
  have a2: "get_lines (data_sets example_registries) ''github'' ''datasets'' = Inr []"
    by code_simp
  have a3: "get_lines (training_dict example_registries) ''github'' ''training''
      = Inr [[PStr ''owa'', PStr ''`poem.training.OWATrainingLoop`'',
              PStr ''A training loop that uses the open world assumption.'']]"
    by code_simp
  have a4: "get_lines (evaluators_dict example_registries) ''github'' ''evaluators''
      = Inr [[PStr ''rankbased'', PStr ''`poem.evaluators.RankBasedEvaluator`'',
              PStr ''A rank-based evaluator for KGE models.'']]"
    by code_simp
  have a5: "get_lines (metrics_dict example_registries) ''github'' ''evaluators''
      = Inr [[PStr ''mr'', PStr ''`poem.evaluators.mean_rank`'', PStr ''The mean rank.'']]"
    by code_simp
  have e: "items (data_sets example_registries) = []"
    by code_simp
  have t1: "bar_table [[PStr ''ConvE'', PStr ''`poem.models.ConvE`'', PStr ''Dettmers *et al.*, 2018''],
             [PStr ''TransE'', PStr ''`poem.models.TransE`'', PStr ''Bordes *et al.*, 2013'']]
             [''Name'', ''Reference'', ''Citation''] ''github''
      = ''Name | Reference | Citation'' @ [CHR 0x0A]
        @ ''ConvE | `poem.models.ConvE` | Dettmers *et al.*, 2018'' @ [CHR 0x0A]
        @ ''TransE | `poem.models.TransE` | Bordes *et al.*, 2013''"
    by code_simp
  have t2: "bar_table [] [''Name'', ''Reference'', ''Description''] ''github''
      = ''Name | Reference | Description''"
    by code_simp
  have t3: "bar_table [[PStr ''owa'', PStr ''`poem.training.OWATrainingLoop`'',
              PStr ''A training loop that uses the open world assumption.'']]
              [''Name'', ''Reference'', ''Description''] ''github''
      = ''Name | Reference | Description'' @ [CHR 0x0A]
        @ ''owa | `poem.training.OWATrainingLoop` | A training loop that uses the open world assumption.''"
    by code_simp
  have t4: "bar_table [[PStr ''rankbased'', PStr ''`poem.evaluators.RankBasedEvaluator`'',
              PStr ''A rank-based evaluator for KGE models.'']]
              [''Name'', ''Reference'', ''Description''] ''github''
      = ''Name | Reference | Description'' @ [CHR 0x0A]
        @ ''rankbased | `poem.evaluators.RankBasedEvaluator` | A rank-based evaluator for KGE models.''"
    by code_simp
  have t5: "bar_table [[PStr ''mr'', PStr ''`poem.evaluators.mean_rank`'', PStr ''The mean rank.'']]
              [''Name'', ''Reference'', ''Description''] ''github''
      = ''Name | Reference | Description'' @ [CHR 0x0A]
        @ ''mr | `poem.evaluators.mean_rank` | The mean rank.''"
    by code_simp
  have m: "dict_values (models_dict example_registries) = [transe, conve]
           \<and> documented transe \<and> documented conve"
    by code_simp
  then have h1: "\<forall>v \<in> set (dict_values (models_dict example_registries)). documented v"
    by simp
  have o: "dict_values (data_sets example_registries) = []
           \<and> dict_values (training_dict example_registries) = [owa_loop]
           \<and> dict_values (evaluators_dict example_registries) = [rank_evaluator]
           \<and> dict_values (metrics_dict example_registries) = [mean_rank]
           \<and> attr_doc owa_loop \<noteq> Some [] \<and> attr_doc rank_evaluator \<noteq> Some []
           \<and> attr_doc mean_rank \<noteq> Some []"
    by code_simp
  then have h2: "\<forall>v \<in> set (dict_values (data_sets example_registries))
             \<union> set (dict_values (training_dict example_registries))
             \<union> set (dict_values (evaluators_dict example_registries))
             \<union> set (dict_values (metrics_dict example_registries)).
           attr_doc v \<noteq> Some []"
    by simp
  from github_readme_five_sections [OF h1 h2, of bar_table] a1 a2 a3 a4 a5
  have "github_readme bar_table example_registries =
       (''### Models'' @ [CHR 0x0A, CHR 0x0A]
        @ ''Name | Reference | Citation'' @ [CHR 0x0A]
        @ ''ConvE | `poem.models.ConvE` | Dettmers *et al.*, 2018'' @ [CHR 0x0A]
        @ ''TransE | `poem.models.TransE` | Bordes *et al.*, 2013'' @ [CHR 0x0A, CHR 0x0A]
        @ ''### Data Sets'' @ [CHR 0x0A, CHR 0x0A]
        @ ''Name | Reference | Description'' @ [CHR 0x0A, CHR 0x0A]
        @ ''### Training Modes'' @ [CHR 0x0A, CHR 0x0A]
        @ ''Name | Reference | Description'' @ [CHR 0x0A]
        @ ''owa | `poem.training.OWATrainingLoop` | A training loop that uses the open world assumption.''
        @ [CHR 0x0A, CHR 0x0A]
        @ ''### Evaluators'' @ [CHR 0x0A, CHR 0x0A]
        @ ''Name | Reference | Description'' @ [CHR 0x0A]
        @ ''rankbased | `poem.evaluators.RankBasedEvaluator` | A rank-based evaluator for KGE models.''
        @ [CHR 0x0A, CHR 0x0A]
        @ ''### Metrics'' @ [CHR 0x0A, CHR 0x0A]
        @ ''Name | Reference | Description'' @ [CHR 0x0A]
        @ ''mr | `poem.evaluators.mean_rank` | The mean rank.'' @ [CHR 0x0A],
        None)"
    by (auto simp: t1 t2 t3 t4 t5)
  with e a2 show ?thesis by simp
qed

text \<open>
  As stated, with no condition on the registries, the claim fails when a model has no
  documentation: the first header is written and the command raises, so four sections are
  missing.
\<close>

theorem github_readme_five_sections_counterexample:
  "github_readme bar_table undocumented_model_registries
     = (''### Models'' @ [CHR 0x0A, CHR 0x0A], Some AttributeError)"
  by code_simp

end
